theory Spec2Isabelle
  imports
    Complex_Main
    "HOL-Library.Char_ord"
    "HOL-Library.List_Lexorder"
    "HOL-Library.Product_Lexorder"
    "HOL-Library.Multiset"
begin

section \<open>The data store (app/db.py)\<close>

text \<open>
  The five tables of \<^verbatim>\<open>_SCHEMA\<close>, one record per row with the columns in
  schema order. \<^verbatim>\<open>INTEGER\<close> is \<^typ>\<open>int\<close>, \<^verbatim>\<open>TEXT\<close> is \<^typ>\<open>string\<close>
  (bytes; SQLite compares \<^verbatim>\<open>TEXT\<close> bytewise, which is the lexicographic order
  of \<^typ>\<open>string\<close> here), a column without \<^verbatim>\<open>NOT NULL\<close> is an option, and
  \<^verbatim>\<open>REAL\<close> is an exact rational: rounding errors of floating point are not
  part of this model.
\<close>

record user_row =
  u_id :: int
  u_name :: string
  u_email :: string
  u_phone :: "string option"
  u_address_line :: "string option"
  u_city :: "string option"
  u_state :: "string option"
  u_zip_code :: "string option"
  u_country :: string
  u_created_at :: string

record order_row =
  o_id :: int
  o_user_id :: int
  o_item :: string
  o_quantity :: int
  o_unit_price :: rat
  o_total_amount :: rat
  o_status :: string
  o_payment_method :: "string option"
  o_shipping_address :: "string option"
  o_tracking_number :: "string option"
  o_ordered_at :: string

record complaint_row =
  c_id :: int
  c_user_id :: int
  c_order_id :: "int option"
  c_category :: string
  c_priority :: string
  c_status :: string
  c_subject :: string
  c_details :: string
  c_resolution :: "string option"
  c_assigned_to :: "string option"
  c_created_at :: string
  c_resolved_at :: "string option"

record payment_log_row =
  p_id :: int
  p_order_id :: int
  p_transaction_id :: string
  p_event_type :: string
  p_amount :: rat
  p_currency :: string
  p_gateway :: string
  p_status :: string
  p_error_message :: "string option"
  p_logged_at :: string

record logistics_log_row =
  l_id :: int
  l_order_id :: int
  l_tracking_number :: "string option"
  l_carrier :: string
  l_event_type :: string
  l_location :: "string option"
  l_notes :: "string option"
  l_logged_at :: string

text \<open>The database: each table is the list of its rows in storage order.\<close>

record store =
  users :: "user_row list"
  orders :: "order_row list"
  complaints :: "complaint_row list"
  payment_logs :: "payment_log_row list"
  logistics_logs :: "logistics_log_row list"

text \<open>
  What the schema and the connections guarantee of a database that this program has
  filled: an id is the primary key of its table, \<^verbatim>\<open>AUTOINCREMENT\<close> hands out the
  ids from 1 upwards (no insert of the program names an id), and under
  \<^verbatim>\<open>PRAGMA foreign_keys=ON\<close> every reference names an existing row.
\<close>

definition schema_conforming :: "store \<Rightarrow> bool" where
  "schema_conforming s \<longleftrightarrow>
     distinct (map u_id (users s)) \<and> distinct (map o_id (orders s))
     \<and> distinct (map c_id (complaints s)) \<and> distinct (map p_id (payment_logs s))
     \<and> distinct (map l_id (logistics_logs s))
     \<and> list_all (\<lambda>u. 1 \<le> u_id u) (users s)
     \<and> list_all (\<lambda>r. 1 \<le> o_id r \<and> o_user_id r \<in> set (map u_id (users s))) (orders s)
     \<and> list_all (\<lambda>c. 1 \<le> c_id c \<and> c_user_id c \<in> set (map u_id (users s))
           \<and> (case c_order_id c of None \<Rightarrow> True
               | Some oid \<Rightarrow> oid \<in> set (map o_id (orders s)))) (complaints s)
     \<and> list_all (\<lambda>p. 1 \<le> p_id p \<and> p_order_id p \<in> set (map o_id (orders s))) (payment_logs s)
     \<and> list_all (\<lambda>l. 1 \<le> l_id l \<and> l_order_id l \<in> set (map o_id (orders s))) (logistics_logs s)"

text \<open>
  \<^verbatim>\<open>fetch_one\<close> returns the first row of a result set or \<^verbatim>\<open>None\<close>;
  \<^verbatim>\<open>fetch_all\<close> returns every row. A result set is the list of rows the query
  yields, so \<^verbatim>\<open>fetch_all\<close> is the identity on it.
\<close>

definition fetch_one :: "'a list \<Rightarrow> 'a option" where
  "fetch_one rows = (case rows of [] \<Rightarrow> None | row # _ \<Rightarrow> Some row)"

definition fetch_all :: "'a list \<Rightarrow> 'a list" where
  "fetch_all rows = rows"

text \<open>
  Connections. The state of the process towards the database: the database itself,
  whether \<^verbatim>\<open>sqlite3.connect\<close> can open it, whether each of the two
  \<^verbatim>\<open>PRAGMA\<close> statements of \<^verbatim>\<open>get_connection\<close> runs, the handle the next
  connection gets and the handles that are open. \<^verbatim>\<open>get_connection\<close> raises and
  opens nothing when \<^verbatim>\<open>connect\<close> fails. When \<^verbatim>\<open>connect\<close> has returned and a
  \<^verbatim>\<open>PRAGMA\<close> statement raises, the exception leaves \<^verbatim>\<open>get_connection\<close> with
  the connection open: nothing in it closes the connection.
\<close>

datatype py_error =
  KeyError string
  | ValueError string
  | OperationalError string

record db_state =
  db_store :: store
  db_reachable :: bool
  pragma_wal_ok :: bool
  pragma_fk_ok :: bool
  next_handle :: nat
  open_handles :: "nat list"

record connection =
  conn_handle :: nat
  conn_db :: store

definition get_connection :: "db_state \<Rightarrow> (py_error + connection) \<times> db_state" where
  "get_connection st =
     (if \<not> db_reachable st
      then (Inl (OperationalError ''unable to open database file''), st)
      else
        (let conn = \<lparr>conn_handle = next_handle st, conn_db = db_store st\<rparr>;
             st1 = st\<lparr>next_handle := Suc (next_handle st),
                      open_handles := next_handle st # open_handles st\<rparr>
         in if \<not> pragma_wal_ok st then (Inl (OperationalError ''database is locked''), st1)
            else if \<not> pragma_fk_ok st then (Inl (OperationalError ''database is locked''), st1)
            else (Inr conn, st1)))"

definition conn_close :: "connection \<Rightarrow> db_state \<Rightarrow> db_state" where
  "conn_close conn st = st\<lparr>open_handles := removeAll (conn_handle conn) (open_handles st)\<rparr>"

section \<open>The repository (app/repository.py)\<close>

text \<open>
  The decorator \<^verbatim>\<open>_with_conn\<close>: open a connection, run \<^verbatim>\<open>fn(conn, ...)\<close>
  inside \<^verbatim>\<open>try\<close>, close the connection in \<^verbatim>\<open>finally\<close>. The wrapped function
  either returns a value (\<open>Inr\<close>) or raises (\<open>Inl\<close>); the \<^verbatim>\<open>finally\<close> clause runs
  on both paths and the exception, if any, is raised again after it. The call of
  \<^verbatim>\<open>get_connection\<close> stands before the \<^verbatim>\<open>try\<close>: when it raises, the
  \<^verbatim>\<open>finally\<close> clause does not run.
\<close>

definition with_conn :: "(connection \<Rightarrow> py_error + 'a) \<Rightarrow> db_state \<Rightarrow> (py_error + 'a) \<times> db_state" where
  "with_conn fn st =
     (case get_connection st of
        (Inl e, st1) \<Rightarrow> (Inl e, st1)
      | (Inr conn, st1) \<Rightarrow>
          (case fn conn of
             Inr v \<Rightarrow> (Inr v, conn_close conn st1)
           | Inl e \<Rightarrow> (Inl e, conn_close conn st1)))"

text \<open>Python truthiness of an optional integer: \<^verbatim>\<open>None\<close> and \<^verbatim>\<open>0\<close> are false.\<close>

definition py_truthy :: "int option \<Rightarrow> bool" where
  "py_truthy v = (case v of None \<Rightarrow> False | Some n \<Rightarrow> n \<noteq> 0)"

subsection \<open>get\_complaint\_context\_logs\<close>

record complaint_context =
  ctx_complaint :: complaint_row
  ctx_window_hours :: int
  ctx_payment_logs :: "payment_log_row list"
  ctx_logistics_logs :: "logistics_log_row list"
  ctx_order :: "order_row option"
  ctx_user :: "user_row option"

text \<open>
  \<^verbatim>\<open>ORDER BY logged_at\<close> is a sort on the timestamp text; rows with equal timestamps
  are left in storage order here (SQL leaves their order open).
\<close>

definition get_complaint_context_logs :: "store \<Rightarrow> int \<Rightarrow> int \<Rightarrow> complaint_context option" where
  "get_complaint_context_logs conn complaint_id window_hours =
     (case fetch_one (filter (\<lambda>c. c_id c = complaint_id) (complaints conn)) of
        None \<Rightarrow> None
      | Some complaint \<Rightarrow>
          (let order_id = c_order_id complaint;
               wh = window_hours;
               result = \<lparr>ctx_complaint = complaint, ctx_window_hours = wh,
                         ctx_payment_logs = [], ctx_logistics_logs = [],
                         ctx_order = None, ctx_user = None\<rparr>;
               user = fetch_one (filter (\<lambda>u. u_id u = c_user_id complaint) (users conn));
               result = result\<lparr>ctx_user := user\<rparr>
           in if py_truthy order_id then
                (let oid = the order_id;
                     order = fetch_one (filter (\<lambda>row. o_id row = oid) (orders conn));
                     result = result\<lparr>ctx_order := order\<rparr>;
                     result = result\<lparr>ctx_payment_logs :=
                       fetch_all (sort_key p_logged_at
                         (filter (\<lambda>p. p_order_id p = oid) (payment_logs conn)))\<rparr>;
                     result = result\<lparr>ctx_logistics_logs :=
                       fetch_all (sort_key l_logged_at
                         (filter (\<lambda>l. l_order_id l = oid) (logistics_logs conn)))\<rparr>
                 in Some result)
              else Some result))"

subsection \<open>SQL building blocks\<close>

text \<open>
  What the queries below use of SQL. Aggregates skip \<^verbatim>\<open>NULL\<close> and give \<^verbatim>\<open>NULL\<close>
  on no value (\<^verbatim>\<open>COUNT\<close> gives 0); arithmetic on \<^verbatim>\<open>NULL\<close> is \<^verbatim>\<open>NULL\<close>.
  \<^verbatim>\<open>GROUP BY\<close> yields one non-empty group per key value; the order of the groups
  is open in SQL and is the order of \<open>remdups\<close> here. A left join pairs a row with each
  matching row of the right side, or with \<^verbatim>\<open>NULL\<close> when there is none.
\<close>

fun sql_min :: "'a::linorder list \<Rightarrow> 'a option" where
  "sql_min [] = None"
| "sql_min (x # xs) = Some (fold min xs x)"

fun sql_max :: "'a::linorder list \<Rightarrow> 'a option" where
  "sql_max [] = None"
| "sql_max (x # xs) = Some (fold max xs x)"

definition non_null :: "'a option list \<Rightarrow> 'a list" where
  "non_null vs = concat (map (\<lambda>v. case v of None \<Rightarrow> [] | Some x \<Rightarrow> [x]) vs)"

definition sql_sum :: "rat option list \<Rightarrow> rat option" where
  "sql_sum vs = (if non_null vs = [] then None else Some (sum_list (non_null vs)))"

definition sql_avg :: "rat option list \<Rightarrow> rat option" where
  "sql_avg vs =
     (if non_null vs = [] then None
      else Some (sum_list (non_null vs) / of_nat (length (non_null vs))))"

definition sql_count :: "'a option list \<Rightarrow> nat" where
  "sql_count vs = length (non_null vs)"

definition coalesce :: "'a option \<Rightarrow> 'a \<Rightarrow> 'a" where
  "coalesce v d = (case v of None \<Rightarrow> d | Some x \<Rightarrow> x)"

text \<open>\<^verbatim>\<open>ROUND(x, n)\<close>: to \<open>n\<close> decimal places, a half away from zero.\<close>

definition sql_round :: "nat \<Rightarrow> rat \<Rightarrow> rat" where
  "sql_round n x =
     (if 0 \<le> x then of_int \<lfloor>x * 10 ^ n + 1 / 2\<rfloor> / 10 ^ n
      else - (of_int \<lfloor>- x * 10 ^ n + 1 / 2\<rfloor> / 10 ^ n))"

definition group_by :: "('a \<Rightarrow> 'k) \<Rightarrow> 'a list \<Rightarrow> 'a list list" where
  "group_by key rows = map (\<lambda>k. filter (\<lambda>r. key r = k) rows) (remdups (map key rows))"

definition left_join :: "'a list \<Rightarrow> 'b list \<Rightarrow> ('a \<Rightarrow> 'b \<Rightarrow> bool) \<Rightarrow> ('a \<times> 'b option) list" where
  "left_join xs ys on =
     concat (map (\<lambda>x. case filter (on x) ys of
                         [] \<Rightarrow> [(x, None)]
                       | m # ms \<Rightarrow> map (\<lambda>y. (x, Some y)) (m # ms)) xs)"

definition inner_join :: "'a list \<Rightarrow> 'b list \<Rightarrow> ('a \<Rightarrow> 'b \<Rightarrow> bool) \<Rightarrow> ('a \<times> 'b) list" where
  "inner_join xs ys on = concat (map (\<lambda>x. map (\<lambda>y. (x, y)) (filter (on x) ys)) xs)"

text \<open>
  \<^verbatim>\<open>(julianday(a) - julianday(b)) * 24\<close>, the hours from \<open>b\<close> to \<open>a\<close>. SQLite's
  \<^verbatim>\<open>julianday\<close> is a parameter \<open>jd\<close> of the queries that use it: it maps a timestamp
  text to a day number, or to \<^verbatim>\<open>NULL\<close> when it cannot read the text.
\<close>

definition hours_between :: "(string \<Rightarrow> rat option) \<Rightarrow> string option \<Rightarrow> string option \<Rightarrow> rat option" where
  "hours_between jd a b =
     (case (Option.bind a jd, Option.bind b jd) of
        (Some x, Some y) \<Rightarrow> Some ((x - y) * 24)
      | _ \<Rightarrow> None)"

subsection \<open>get\_top\_customers and get\_user\_lifetime\_value\<close>

record top_customer =
  tc_user_id :: int
  tc_name :: string
  tc_email :: string
  tc_city :: "string option"
  tc_order_count :: nat
  tc_total_spent :: "rat option"
  tc_avg_order_value :: "rat option"
  tc_last_order_at :: "string option"

text \<open>\<^verbatim>\<open>LIMIT n\<close>: the first \<open>n\<close> rows; a negative \<open>n\<close> is no limit.\<close>

definition sql_limit :: "int \<Rightarrow> 'a list \<Rightarrow> 'a list" where
  "sql_limit n rows = (if n < 0 then rows else take (nat n) rows)"

text \<open>
  \<^verbatim>\<open>ORDER BY total_spent DESC\<close>: descending, \<^verbatim>\<open>NULL\<close> last (SQLite takes
  \<^verbatim>\<open>NULL\<close> for the smallest value). The key is the negated value; \<open>None\<close> is mapped
  behind every value by the pair with a flag.
\<close>

definition desc_key :: "rat option \<Rightarrow> nat \<times> rat" where
  "desc_key v = (case v of None \<Rightarrow> (1, 0) | Some x \<Rightarrow> (0, - x))"

definition get_top_customers :: "store \<Rightarrow> int \<Rightarrow> top_customer list" where
  "get_top_customers conn limit =
     fetch_all (sql_limit limit
       (sort_key (\<lambda>r. desc_key (tc_total_spent r))
         (concat (map
           (\<lambda>g. case g of
                  [] \<Rightarrow> []
                | (u, _) # _ \<Rightarrow>
                    [\<lparr>tc_user_id = u_id u, tc_name = u_name u, tc_email = u_email u,
                      tc_city = u_city u,
                      tc_order_count = sql_count (map (\<lambda>(_, row). Some (o_id row)) g),
                      tc_total_spent = map_option (sql_round 2)
                        (sql_sum (map (\<lambda>(_, row). Some (o_total_amount row)) g)),
                      tc_avg_order_value = map_option (sql_round 2)
                        (sql_avg (map (\<lambda>(_, row). Some (o_total_amount row)) g)),
                      tc_last_order_at = sql_max (map (\<lambda>(_, row). o_ordered_at row) g)\<rparr>])
           (group_by (\<lambda>(u, _). u_id u)
             (inner_join (users conn) (orders conn) (\<lambda>u row. o_user_id row = u_id u)))))))"

record lifetime_value =
  ltv_id :: int
  ltv_name :: string
  ltv_email :: string
  ltv_city :: "string option"
  ltv_state :: "string option"
  ltv_member_since :: string
  ltv_total_orders :: nat
  ltv_total_spent :: rat
  ltv_avg_order_value :: rat
  ltv_first_order :: "string option"
  ltv_last_order :: "string option"
  ltv_total_complaints :: nat
  ltv_open_complaints :: nat

definition get_user_lifetime_value :: "store \<Rightarrow> int \<Rightarrow> lifetime_value option" where
  "get_user_lifetime_value conn user_id =
     fetch_one (concat (map
       (\<lambda>g. case g of
              [] \<Rightarrow> []
            | (u, _) # _ \<Rightarrow>
                [\<lparr>ltv_id = u_id u, ltv_name = u_name u, ltv_email = u_email u,
                  ltv_city = u_city u, ltv_state = u_state u,
                  ltv_member_since = u_created_at u,
                  ltv_total_orders = sql_count (map (\<lambda>(_, row). map_option o_id row) g),
                  ltv_total_spent = sql_round 2 (coalesce
                    (sql_sum (map (\<lambda>(_, row). map_option o_total_amount row) g)) 0),
                  ltv_avg_order_value = sql_round 2 (coalesce
                    (sql_avg (map (\<lambda>(_, row). map_option o_total_amount row) g)) 0),
                  ltv_first_order =
                    sql_min (non_null (map (\<lambda>(_, row). map_option o_ordered_at row) g)),
                  ltv_last_order =
                    sql_max (non_null (map (\<lambda>(_, row). map_option o_ordered_at row) g)),
                  ltv_total_complaints =
                    length (filter (\<lambda>c. c_user_id c = u_id u) (complaints conn)),
                  ltv_open_complaints =
                    length (filter (\<lambda>c. c_user_id c = u_id u
                        \<and> c_status c \<in> {''open'', ''investigating'', ''waiting_customer''})
                      (complaints conn))\<rparr>])
       (group_by (\<lambda>(u, _). u_id u)
         (filter (\<lambda>(u, _). u_id u = user_id)
           (left_join (users conn) (orders conn) (\<lambda>u row. o_user_id row = u_id u))))))"

subsection \<open>get\_carrier\_performance\<close>

record carrier_performance =
  cp_carrier :: string
  cp_total_events :: nat
  cp_orders_handled :: nat
  cp_avg_delivery_hours :: "rat option"

text \<open>
  The subquery \<^verbatim>\<open>d\<close>: per order, the first event time and the last time of a
  \<^verbatim>\<open>delivered\<close> event (the \<^verbatim>\<open>CASE\<close> without \<^verbatim>\<open>ELSE\<close> is \<^verbatim>\<open>NULL\<close> on
  the other events).
\<close>

definition order_spans :: "store \<Rightarrow> (int \<times> string option \<times> string option) list" where
  "order_spans conn =
     concat (map
       (\<lambda>g. case g of
              [] \<Rightarrow> []
            | ll2 # _ \<Rightarrow>
                [(l_order_id ll2,
                  sql_min (map l_logged_at g),
                  sql_max (non_null (map (\<lambda>e. if l_event_type e = ''delivered''
                                               then Some (l_logged_at e) else None) g)))])
       (group_by l_order_id (logistics_logs conn)))"

definition span_hours :: "(string \<Rightarrow> rat option) \<Rightarrow> (int \<times> string option \<times> string option) option \<Rightarrow> rat option" where
  "span_hours jd d =
     (case d of
        None \<Rightarrow> None
      | Some (_, first_event, delivered_at) \<Rightarrow>
          if delivered_at \<noteq> None \<and> first_event \<noteq> None
          then hours_between jd delivered_at first_event
          else None)"

definition get_carrier_performance :: "(string \<Rightarrow> rat option) \<Rightarrow> store \<Rightarrow> carrier_performance list" where
  "get_carrier_performance jd conn =
     fetch_all (sort_key (\<lambda>r. - int (cp_orders_handled r))
       (concat (map
         (\<lambda>g. case g of
                [] \<Rightarrow> []
              | (ll, _) # _ \<Rightarrow>
                  [\<lparr>cp_carrier = l_carrier ll,
                    cp_total_events = length g,
                    cp_orders_handled = length (remdups (map (\<lambda>(e, _). l_order_id e) g)),
                    cp_avg_delivery_hours = map_option (sql_round 1)
                      (sql_avg (map (\<lambda>(_, d). span_hours jd d) g))\<rparr>])
         (group_by (\<lambda>(ll, _). l_carrier ll)
           (left_join (logistics_logs conn) (order_spans conn)
              (\<lambda>ll d. fst d = l_order_id ll))))))"

text \<open>
  The average as the specification words it, for comparison with the query: for one
  carrier, the mean span over the orders the carrier has events for, every order with
  both anchors counted once.
\<close>

definition avg_span_per_order :: "(string \<Rightarrow> rat option) \<Rightarrow> store \<Rightarrow> string \<Rightarrow> rat option" where
  "avg_span_per_order jd conn carrier =
     map_option (sql_round 1)
       (sql_avg (map (\<lambda>oid. span_hours jd (fetch_one (filter (\<lambda>d. fst d = oid) (order_spans conn))))
          (remdups (map l_order_id (filter (\<lambda>e. l_carrier e = carrier) (logistics_logs conn))))))"

subsection \<open>get\_order\_delivery\_time\<close>

record delivery_time =
  dt_order_id :: int
  dt_item :: string
  dt_tracking_number :: "string option"
  dt_ordered_at :: string
  dt_shipped_at :: "string option"
  dt_delivered_at :: "string option"
  dt_processing_hours :: "rat option"
  dt_shipping_hours :: "rat option"
  dt_total_hours :: "rat option"

text \<open>
  The subqueries \<^verbatim>\<open>dispatch\<close> and \<^verbatim>\<open>delivery\<close>: per order, the least time of a
  \<^verbatim>\<open>dispatched\<close> event and the greatest time of a \<^verbatim>\<open>delivered\<close> event.
\<close>

definition dispatch_times :: "store \<Rightarrow> (int \<times> string option) list" where
  "dispatch_times conn =
     concat (map
       (\<lambda>g. case g of [] \<Rightarrow> [] | e # _ \<Rightarrow> [(l_order_id e, sql_min (map l_logged_at g))])
       (group_by l_order_id
         (filter (\<lambda>e. l_event_type e = ''dispatched'') (logistics_logs conn))))"

definition delivery_times :: "store \<Rightarrow> (int \<times> string option) list" where
  "delivery_times conn =
     concat (map
       (\<lambda>g. case g of [] \<Rightarrow> [] | e # _ \<Rightarrow> [(l_order_id e, sql_max (map l_logged_at g))])
       (group_by l_order_id
         (filter (\<lambda>e. l_event_type e = ''delivered'') (logistics_logs conn))))"

definition get_order_delivery_time :: "(string \<Rightarrow> rat option) \<Rightarrow> store \<Rightarrow> int \<Rightarrow> delivery_time option" where
  "get_order_delivery_time jd conn order_id =
     fetch_one (map
       (\<lambda>((row, dispatch), delivery).
          (let shipped_at = Option.bind dispatch snd;
               delivered_at = Option.bind delivery snd
           in \<lparr>dt_order_id = o_id row, dt_item = o_item row,
                dt_tracking_number = o_tracking_number row,
                dt_ordered_at = o_ordered_at row,
                dt_shipped_at = shipped_at,
                dt_delivered_at = delivered_at,
                dt_processing_hours = map_option (sql_round 1)
                  (hours_between jd shipped_at (Some (o_ordered_at row))),
                dt_shipping_hours = map_option (sql_round 1)
                  (hours_between jd delivered_at shipped_at),
                dt_total_hours = map_option (sql_round 1)
                  (hours_between jd delivered_at (Some (o_ordered_at row)))\<rparr>))
       (filter (\<lambda>((row, _), _). o_id row = order_id)
         (left_join
           (left_join (orders conn) (dispatch_times conn) (\<lambda>row d. fst d = o_id row))
           (delivery_times conn) (\<lambda>(row, _) d. fst d = o_id row))))"

text \<open>
  For the statements about this query: the times of the logistics events of an order
  that have a given event type, in storage order.
\<close>

definition event_times :: "store \<Rightarrow> int \<Rightarrow> string \<Rightarrow> string list" where
  "event_times s oid ev =
     map l_logged_at (filter (\<lambda>e. l_order_id e = oid \<and> l_event_type e = ev) (logistics_logs s))"

subsection \<open>Timestamps\<close>

text \<open>
  SQLite's \<^verbatim>\<open>julianday\<close> on the timestamps \<^verbatim>\<open>YYYY-MM-DD HH:MM:SS\<close> (also with a
  \<^verbatim>\<open>T\<close> between date and time), in exact arithmetic: the day number of the
  Gregorian date as SQLite computes it, plus the fraction of the day. Other texts that
  SQLite can read are outside this definition, which stands in for \<open>jd\<close> in the
  examples only.
\<close>

definition digits_val :: "string \<Rightarrow> nat option" where
  "digits_val ds =
     (if ds \<noteq> [] \<and> list_all (\<lambda>c. CHR ''0'' \<le> c \<and> c \<le> CHR ''9'') ds
      then Some (foldl (\<lambda>n c. 10 * n + (of_char c - 48)) 0 ds)
      else None)"

definition julian_day_number :: "int \<Rightarrow> int \<Rightarrow> int \<Rightarrow> rat" where
  "julian_day_number year month day =
     (let y = (if month \<le> 2 then year - 1 else year);
          m = (if month \<le> 2 then month + 12 else month);
          a = (y + 4800) div 100;
          b = 38 - a + a div 4;
          x1 = 36525 * (y + 4716) div 100;
          x2 = 306001 * (m + 1) div 10000
      in of_int (x1 + x2 + day + b) - 3049 / 2)"

definition julianday :: "string \<Rightarrow> rat option" where
  "julianday t =
     (if length t = 19 \<and> t ! 4 = CHR ''-'' \<and> t ! 7 = CHR ''-''
         \<and> (t ! 10 = CHR '' '' \<or> t ! 10 = CHR ''T'')
         \<and> t ! 13 = CHR '':'' \<and> t ! 16 = CHR '':''
      then
        (case (digits_val (take 4 t), digits_val (take 2 (drop 5 t)),
               digits_val (take 2 (drop 8 t)), digits_val (take 2 (drop 11 t)),
               digits_val (take 2 (drop 14 t)), digits_val (take 2 (drop 17 t))) of
           (Some year, Some month, Some day, Some h, Some mi, Some sec) \<Rightarrow>
             if 1 \<le> month \<and> month \<le> 12 \<and> 1 \<le> day \<and> day \<le> 31
                \<and> h \<le> 24 \<and> mi \<le> 59 \<and> sec \<le> 59
             then Some (julian_day_number (int year) (int month) (int day)
                        + of_nat (h * 3600 + mi * 60 + sec) / 86400)
             else None
         | _ \<Rightarrow> None)
      else None)"

section \<open>The tool server (app/mcp\_server.py)\<close>

text \<open>
  Tool arguments are a JSON object: a dictionary from names to values. \<^verbatim>\<open>a[k]\<close>
  raises \<^verbatim>\<open>KeyError\<close> on a missing key, \<^verbatim>\<open>a.get(k)\<close> gives \<^verbatim>\<open>None\<close> and
  \<^verbatim>\<open>a.get(k, d)\<close> gives \<open>d\<close>.
\<close>

datatype pyval = PyNone | PyBool bool | PyInt int | PyStr string

type_synonym arguments = "string \<rightharpoonup> pyval"

definition subscript :: "arguments \<Rightarrow> string \<Rightarrow> py_error + pyval" where
  "subscript a k = (case a k of None \<Rightarrow> Inl (KeyError k) | Some v \<Rightarrow> Inr v)"

definition dict_get :: "arguments \<Rightarrow> string \<Rightarrow> pyval" where
  "dict_get a k = (case a k of None \<Rightarrow> PyNone | Some v \<Rightarrow> v)"

definition dict_get_default :: "arguments \<Rightarrow> string \<Rightarrow> pyval \<Rightarrow> pyval" where
  "dict_get_default a k d = (case a k of None \<Rightarrow> d | Some v \<Rightarrow> v)"

text \<open>
  The catalog \<^verbatim>\<open>TOOLS\<close>: of each tool its name and the \<^verbatim>\<open>required\<close> list of its
  input schema (descriptions and property types are left out).
\<close>

record tool =
  tool_name :: string
  tool_required :: "string list"

definition TOOLS :: "tool list" where
  "TOOLS =
    [\<lparr>tool_name = ''list_users'', tool_required = []\<rparr>,
     \<lparr>tool_name = ''get_user_by_id'', tool_required = [''user_id'']\<rparr>,
     \<lparr>tool_name = ''search_users'', tool_required = [''keyword'']\<rparr>,
     \<lparr>tool_name = ''get_user_summary'', tool_required = [''user_id'']\<rparr>,
     \<lparr>tool_name = ''list_orders'', tool_required = []\<rparr>,
     \<lparr>tool_name = ''get_order_by_id'', tool_required = [''order_id'']\<rparr>,
     \<lparr>tool_name = ''get_orders_by_date_range'', tool_required = [''start'', ''end'']\<rparr>,
     \<lparr>tool_name = ''get_order_by_tracking'', tool_required = [''tracking_number'']\<rparr>,
     \<lparr>tool_name = ''get_order_statistics'', tool_required = []\<rparr>,
     \<lparr>tool_name = ''list_complaints'', tool_required = []\<rparr>,
     \<lparr>tool_name = ''get_complaint_by_id'', tool_required = [''complaint_id'']\<rparr>,
     \<lparr>tool_name = ''search_complaints'', tool_required = [''keyword'']\<rparr>,
     \<lparr>tool_name = ''get_high_priority_open_complaints'', tool_required = []\<rparr>,
     \<lparr>tool_name = ''get_complaint_statistics'', tool_required = []\<rparr>,
     \<lparr>tool_name = ''get_complaints_for_order'', tool_required = [''order_id'']\<rparr>,
     \<lparr>tool_name = ''correlate_user_issues'', tool_required = [''user_id'']\<rparr>,
     \<lparr>tool_name = ''get_payment_logs'', tool_required = []\<rparr>,
     \<lparr>tool_name = ''get_logistics_logs'', tool_required = []\<rparr>,
     \<lparr>tool_name = ''get_complaint_context_logs'', tool_required = [''complaint_id'']\<rparr>,
     \<lparr>tool_name = ''get_revenue_by_city'', tool_required = []\<rparr>,
     \<lparr>tool_name = ''get_top_customers'', tool_required = []\<rparr>,
     \<lparr>tool_name = ''get_user_lifetime_value'', tool_required = [''user_id'']\<rparr>,
     \<lparr>tool_name = ''get_dashboard_summary'', tool_required = []\<rparr>,
     \<lparr>tool_name = ''get_order_fulfillment_timeline'', tool_required = [''order_id'']\<rparr>,
     \<lparr>tool_name = ''get_active_shipments'', tool_required = []\<rparr>,
     \<lparr>tool_name = ''get_order_delivery_time'', tool_required = [''order_id'']\<rparr>,
     \<lparr>tool_name = ''get_complaint_resolution_time_stats'', tool_required = []\<rparr>,
     \<lparr>tool_name = ''get_payment_failure_rate'', tool_required = []\<rparr>,
     \<lparr>tool_name = ''get_payment_summary_by_method'', tool_required = []\<rparr>,
     \<lparr>tool_name = ''get_carrier_performance'', tool_required = []\<rparr>]"

text \<open>
  A call of a repository function with its evaluated arguments, in the order of the
  function's parameters: what a handler of \<^verbatim>\<open>_TOOL_DISPATCH\<close> has computed when it
  enters the repository.
\<close>

datatype repo_call =
  List_users
  | Get_user_by_id pyval
  | Search_users pyval
  | Get_user_summary pyval
  | List_orders pyval pyval pyval
  | Get_order_by_id pyval
  | Get_orders_by_date_range pyval pyval
  | Get_order_by_tracking pyval
  | Get_order_statistics
  | List_complaints pyval pyval pyval pyval pyval
  | Get_complaint_by_id pyval
  | Search_complaints pyval
  | Get_high_priority_open_complaints
  | Get_complaint_statistics
  | Get_complaints_for_order pyval
  | Correlate_user_issues pyval
  | Get_payment_logs pyval pyval pyval
  | Get_logistics_logs pyval pyval pyval pyval
  | Get_complaint_context_logs pyval pyval
  | Get_revenue_by_city
  | Get_top_customers pyval
  | Get_user_lifetime_value pyval
  | Get_dashboard_summary
  | Get_order_fulfillment_timeline pyval
  | Get_active_shipments
  | Get_order_delivery_time pyval
  | Get_complaint_resolution_time_stats
  | Get_payment_failure_rate
  | Get_payment_summary_by_method
  | Get_carrier_performance

text \<open>
  Python evaluates the arguments of a call from left to right before the call, so a
  handler raises the \<^verbatim>\<open>KeyError\<close> of its first missing \<^verbatim>\<open>a[k]\<close> and never
  reaches the repository function.
\<close>

definition with_arg :: "arguments \<Rightarrow> string \<Rightarrow> (pyval \<Rightarrow> py_error + 'a) \<Rightarrow> py_error + 'a" where
  "with_arg a k f = (case subscript a k of Inl e \<Rightarrow> Inl e | Inr v \<Rightarrow> f v)"

definition TOOL_DISPATCH :: "(string \<times> (arguments \<Rightarrow> py_error + repo_call)) list" where
  "TOOL_DISPATCH =
    [(''list_users'', \<lambda>a. Inr List_users),
     (''get_user_by_id'', \<lambda>a. with_arg a ''user_id'' (\<lambda>v. Inr (Get_user_by_id v))),
     (''search_users'', \<lambda>a. with_arg a ''keyword'' (\<lambda>v. Inr (Search_users v))),
     (''get_user_summary'', \<lambda>a. with_arg a ''user_id'' (\<lambda>v. Inr (Get_user_summary v))),
     (''list_orders'', \<lambda>a. Inr (List_orders (dict_get a ''user_id'') (dict_get a ''status'')
        (dict_get a ''payment_method''))),
     (''get_order_by_id'', \<lambda>a. with_arg a ''order_id'' (\<lambda>v. Inr (Get_order_by_id v))),
     (''get_orders_by_date_range'', \<lambda>a. with_arg a ''start'' (\<lambda>v.
        with_arg a ''end'' (\<lambda>w. Inr (Get_orders_by_date_range v w)))),
     (''get_order_by_tracking'', \<lambda>a. with_arg a ''tracking_number''
        (\<lambda>v. Inr (Get_order_by_tracking v))),
     (''get_order_statistics'', \<lambda>a. Inr Get_order_statistics),
     (''list_complaints'', \<lambda>a. Inr (List_complaints (dict_get a ''user_id'')
        (dict_get a ''status'') (dict_get a ''category'') (dict_get a ''priority'')
        (dict_get a ''assigned_to''))),
     (''get_complaint_by_id'', \<lambda>a. with_arg a ''complaint_id''
        (\<lambda>v. Inr (Get_complaint_by_id v))),
     (''search_complaints'', \<lambda>a. with_arg a ''keyword'' (\<lambda>v. Inr (Search_complaints v))),
     (''get_high_priority_open_complaints'', \<lambda>a. Inr Get_high_priority_open_complaints),
     (''get_complaint_statistics'', \<lambda>a. Inr Get_complaint_statistics),
     (''get_complaints_for_order'', \<lambda>a. with_arg a ''order_id''
        (\<lambda>v. Inr (Get_complaints_for_order v))),
     (''correlate_user_issues'', \<lambda>a. with_arg a ''user_id''
        (\<lambda>v. Inr (Correlate_user_issues v))),
     (''get_payment_logs'', \<lambda>a. Inr (Get_payment_logs (dict_get a ''order_id'')
        (dict_get a ''start'') (dict_get a ''end''))),
     (''get_logistics_logs'', \<lambda>a. Inr (Get_logistics_logs (dict_get a ''order_id'')
        (dict_get a ''tracking_number'') (dict_get a ''start'') (dict_get a ''end''))),
     (''get_complaint_context_logs'', \<lambda>a. with_arg a ''complaint_id'' (\<lambda>v.
        Inr (Get_complaint_context_logs v (dict_get_default a ''window_hours'' (PyInt 48))))),
     (''get_revenue_by_city'', \<lambda>a. Inr Get_revenue_by_city),
     (''get_top_customers'', \<lambda>a. Inr (Get_top_customers
        (dict_get_default a ''limit'' (PyInt 10)))),
     (''get_user_lifetime_value'', \<lambda>a. with_arg a ''user_id''
        (\<lambda>v. Inr (Get_user_lifetime_value v))),
     (''get_dashboard_summary'', \<lambda>a. Inr Get_dashboard_summary),
     (''get_order_fulfillment_timeline'', \<lambda>a. with_arg a ''order_id''
        (\<lambda>v. Inr (Get_order_fulfillment_timeline v))),
     (''get_active_shipments'', \<lambda>a. Inr Get_active_shipments),
     (''get_order_delivery_time'', \<lambda>a. with_arg a ''order_id''
        (\<lambda>v. Inr (Get_order_delivery_time v))),
     (''get_complaint_resolution_time_stats'', \<lambda>a. Inr Get_complaint_resolution_time_stats),
     (''get_payment_failure_rate'', \<lambda>a. Inr Get_payment_failure_rate),
     (''get_payment_summary_by_method'', \<lambda>a. Inr Get_payment_summary_by_method),
     (''get_carrier_performance'', \<lambda>a. Inr Get_carrier_performance)]"

text \<open>
  \<^verbatim>\<open>handle_call_tool\<close>. The repository is a parameter: \<open>repo call conn\<close> is what the
  undecorated repository function of \<open>call\<close> does on a connection, returning a payload or
  raising; every repository function is decorated, so it runs inside \<open>with_conn\<close>.
  \<open>dumps\<close> is \<^verbatim>\<open>json.dumps(payload, indent=2, default=str)\<close>. The result is the list
  with the one \<^verbatim>\<open>TextContent\<close>, given by its text.
\<close>

definition handle_call_tool ::
  "(repo_call \<Rightarrow> connection \<Rightarrow> py_error + 'p) \<Rightarrow> ('p \<Rightarrow> string) \<Rightarrow>
   string \<Rightarrow> arguments \<Rightarrow> db_state \<Rightarrow> (py_error + string list) \<times> db_state" where
  "handle_call_tool repo dumps name arguments st =
     (case map_of TOOL_DISPATCH name of
        None \<Rightarrow> (Inl (ValueError (''Unknown tool: '' @ name)), st)
      | Some fn \<Rightarrow>
          (case fn arguments of
             Inl e \<Rightarrow> (Inl e, st)
           | Inr call \<Rightarrow>
               (case with_conn (repo call) st of
                  (Inl e, st') \<Rightarrow> (Inl e, st')
                | (Inr payload, st') \<Rightarrow> (Inr [dumps payload], st'))))"


section \<open>The agent loop (client.py)\<close>

































section \<open>Example data\<close>

text \<open>
  A small database used to run the definitions on concrete input. Customer 5 placed
  orders 15 and 16, customer 6 never ordered. Complaint 7 is about order 15,
  complaint 8 has no order.
\<close>

definition mk_user :: "int \<Rightarrow> string \<Rightarrow> string \<Rightarrow> user_row" where
  "mk_user i n e =
     \<lparr>u_id = i, u_name = n, u_email = e, u_phone = None, u_address_line = None,
      u_city = Some ''Pune'', u_state = Some ''Maharashtra'', u_zip_code = None,
      u_country = ''India'', u_created_at = ''2023-11-05 08:30:00''\<rparr>"

definition mk_order :: "int \<Rightarrow> int \<Rightarrow> rat \<Rightarrow> string \<Rightarrow> string \<Rightarrow> order_row" where
  "mk_order i u amount status t =
     \<lparr>o_id = i, o_user_id = u, o_item = ''Headphones'', o_quantity = 1,
      o_unit_price = amount, o_total_amount = amount, o_status = status,
      o_payment_method = Some ''upi'', o_shipping_address = None,
      o_tracking_number = Some ''TRK100015'', o_ordered_at = t\<rparr>"

definition mk_complaint :: "int \<Rightarrow> int \<Rightarrow> int option \<Rightarrow> string \<Rightarrow> complaint_row" where
  "mk_complaint i u oid t =
     \<lparr>c_id = i, c_user_id = u, c_order_id = oid, c_category = ''delivery'',
      c_priority = ''high'', c_status = ''open'', c_subject = ''Where is my parcel'',
      c_details = ''Shipped days ago, nothing received'', c_resolution = None,
      c_assigned_to = None, c_created_at = t, c_resolved_at = None\<rparr>"

definition mk_payment :: "int \<Rightarrow> int \<Rightarrow> string \<Rightarrow> string \<Rightarrow> payment_log_row" where
  "mk_payment i oid ev t =
     \<lparr>p_id = i, p_order_id = oid, p_transaction_id = ''TXN'', p_event_type = ev,
      p_amount = 2499, p_currency = ''INR'', p_gateway = ''Razorpay'',
      p_status = ''success'', p_error_message = None, p_logged_at = t\<rparr>"

definition mk_logistics :: "int \<Rightarrow> int \<Rightarrow> string \<Rightarrow> string \<Rightarrow> string \<Rightarrow> logistics_log_row" where
  "mk_logistics i oid carrier ev t =
     \<lparr>l_id = i, l_order_id = oid, l_tracking_number = None, l_carrier = carrier,
      l_event_type = ev, l_location = None, l_notes = None, l_logged_at = t\<rparr>"

definition shop :: store where
  "shop =
     \<lparr>users = [mk_user 5 ''Rajesh Kumar'' ''rajesh@example.in'',
               mk_user 6 ''Anita Rao'' ''anita@example.in''],
      orders = [mk_order 15 5 2499 ''shipped'' ''2024-03-01 09:00:00'',
                mk_order 16 5 800 ''delivered'' ''2024-03-02 12:00:00''],
      complaints = [mk_complaint 7 5 (Some 15) ''2024-03-06 18:00:00'',
                    mk_complaint 8 6 None ''2024-03-07 10:00:00''],
      payment_logs = [mk_payment 2 15 ''captured'' ''2024-03-01 09:01:30'',
                      mk_payment 1 15 ''authorized'' ''2024-03-01 09:01:00'',
                      mk_payment 3 16 ''captured'' ''2024-03-02 12:02:00''],
      logistics_logs = [mk_logistics 1 15 ''BlueDart'' ''dispatched'' ''2024-03-02 09:00:00'',
                        mk_logistics 2 15 ''BlueDart'' ''in_transit'' ''2024-03-03 09:00:00'',
                        mk_logistics 3 15 ''BlueDart'' ''delivered'' ''2024-03-04 15:00:00'',
                        mk_logistics 4 16 ''Delhivery'' ''delivered'' ''2024-03-05 12:00:00'']\<rparr>"

text \<open>
  Logistics events of three orders: order 1 has three events and takes 24 hours from
  its first event to its delivery, order 2 has two events and takes 48 hours, order 3
  is not delivered yet.
\<close>

definition carrier_shop :: store where
  "carrier_shop =
     \<lparr>users = [mk_user 5 ''Rajesh Kumar'' ''rajesh@example.in''],
      orders = [mk_order 1 5 2499 ''delivered'' ''2024-03-01 07:00:00'',
                mk_order 2 5 800 ''delivered'' ''2024-03-03 07:00:00'',
                mk_order 3 5 650 ''shipped'' ''2024-03-06 07:00:00''],
      complaints = [],
      payment_logs = [],
      logistics_logs = [mk_logistics 1 1 ''BlueDart'' ''label_created'' ''2024-03-01 08:00:00'',
                        mk_logistics 2 1 ''BlueDart'' ''dispatched'' ''2024-03-01 12:00:00'',
                        mk_logistics 3 1 ''BlueDart'' ''delivered'' ''2024-03-02 08:00:00'',
                        mk_logistics 4 2 ''BlueDart'' ''dispatched'' ''2024-03-03 08:00:00'',
                        mk_logistics 5 2 ''BlueDart'' ''delivered'' ''2024-03-05 08:00:00'',
                        mk_logistics 6 3 ''Delhivery'' ''dispatched'' ''2024-03-06 09:00:00'']\<rparr>"

lemmas example_rows =
  mk_user_def mk_order_def mk_complaint_def mk_payment_def mk_logistics_def

text \<open>A repository whose every call returns the empty list, and a state without connections.\<close>

definition empty_repo :: "repo_call \<Rightarrow> connection \<Rightarrow> py_error + string" where
  "empty_repo call conn = Inr ''[]''"

definition idle :: db_state where
  "idle = \<lparr>db_store = shop, db_reachable = True, pragma_wal_ok = True,
            pragma_fk_ok = True, next_handle = 0, open_handles = []\<rparr>"

text \<open>The same state with a database on which \<^verbatim>\<open>PRAGMA journal_mode=WAL\<close> raises.\<close>

definition locked :: db_state where
  "locked = \<lparr>db_store = shop, db_reachable = True, pragma_wal_ok = False,
              pragma_fk_ok = True, next_handle = 0, open_handles = []\<rparr>"











section \<open>Connection management\<close>

lemma with_conn_closes:
  assumes "db_reachable st" and "pragma_wal_ok st" and "pragma_fk_ok st"
  shows "fst (with_conn fn st) = fn \<lparr>conn_handle = next_handle st, conn_db = db_store st\<rparr>"
    and "open_handles (snd (with_conn fn st)) = removeAll (next_handle st) (open_handles st)"
    and "next_handle (snd (with_conn fn st)) = Suc (next_handle st)"
  using assms
  by (cases "fn \<lparr>conn_handle = next_handle st, conn_db = db_store st\<rparr>";
      simp add: with_conn_def get_connection_def conn_close_def Let_def)+

text \<open>
  Claim C9 on the state \<open>locked\<close>. Where \<^verbatim>\<open>get_connection\<close> succeeds the
  wrapper closes its connection on the return path and on the raise path of the wrapped
  function (\<open>with_conn_closes\<close>). On \<open>locked\<close> the operation fails in
  \<^verbatim>\<open>get_connection\<close> after the connection was opened: the exception reaches the
  caller and handle 0, open before no call, is open after it. The operation leaks a
  connection on this error path.
\<close>

theorem with_conn_leaks_when_pragma_fails:
  "with_conn (empty_repo List_users) locked
     = (Inl (OperationalError ''database is locked''),
        locked\<lparr>next_handle := 1, open_handles := [0]\<rparr>)
   \<and> open_handles locked = []
   \<and> open_handles (snd (with_conn (empty_repo List_users) locked)) = [0]"
  by (simp add: with_conn_def get_connection_def locked_def Let_def)

section \<open>The complaint context bundle\<close>

lemma fetch_one_filter_None:
  "fetch_one (filter P xs) = None \<longleftrightarrow> \<not> (\<exists>x \<in> set xs. P x)"
  by (induction xs) (auto simp: fetch_one_def)

lemma fetch_one_filter_Some:
  "fetch_one (filter P xs) = Some x \<Longrightarrow> x \<in> set xs \<and> P x"
  by (induction xs) (auto simp: fetch_one_def split: if_splits)

lemma fetch_one_filter_distinct:
  "distinct (map f xs) \<Longrightarrow> x \<in> set xs \<Longrightarrow> fetch_one (filter (\<lambda>y. f y = f x) xs) = Some x"
  by (induction xs) (auto simp: fetch_one_def)

lemma context_logs_of_complaint:
  assumes "fetch_one (filter (\<lambda>c. c_id c = cid) (complaints s)) = Some c"
  shows "get_complaint_context_logs s cid wh =
     Some \<lparr>ctx_complaint = c, ctx_window_hours = wh,
       ctx_payment_logs =
         (if py_truthy (c_order_id c)
          then sort_key p_logged_at (filter (\<lambda>p. p_order_id p = the (c_order_id c)) (payment_logs s))
          else []),
       ctx_logistics_logs =
         (if py_truthy (c_order_id c)
          then sort_key l_logged_at (filter (\<lambda>l. l_order_id l = the (c_order_id c)) (logistics_logs s))
          else []),
       ctx_order =
         (if py_truthy (c_order_id c)
          then fetch_one (filter (\<lambda>row. o_id row = the (c_order_id c)) (orders s))
          else None),
       ctx_user = fetch_one (filter (\<lambda>u. u_id u = c_user_id c) (users s))\<rparr>"
  using assms by (simp add: get_complaint_context_logs_def fetch_all_def Let_def)

lemma conforming_complaint_ids: "schema_conforming s \<Longrightarrow> distinct (map c_id (complaints s))"
  by (simp add: schema_conforming_def)

lemma conforming_order_ids:
  "schema_conforming s \<Longrightarrow> list_all (\<lambda>r. 1 \<le> o_id r \<and> o_user_id r \<in> set (map u_id (users s))) (orders s)"
  by (simp add: schema_conforming_def)

lemma conforming_complaint_refs:
  "schema_conforming s \<Longrightarrow>
   list_all (\<lambda>c. 1 \<le> c_id c \<and> c_user_id c \<in> set (map u_id (users s))
           \<and> (case c_order_id c of None \<Rightarrow> True
               | Some oid \<Rightarrow> oid \<in> set (map o_id (orders s)))) (complaints s)"
  by (simp add: schema_conforming_def)

lemma conforming_order_reference:
  assumes "schema_conforming s" and "c \<in> set (complaints s)" and "c_order_id c = Some oid"
  shows "oid \<noteq> 0" and "\<exists>row \<in> set (orders s). o_id row = oid"
proof -
  from conforming_complaint_refs [OF assms(1)] assms(2)
  have "case c_order_id c of None \<Rightarrow> True | Some oid \<Rightarrow> oid \<in> set (map o_id (orders s))"
    unfolding list_all_iff by blast
  with assms(3) have ref: "oid \<in> set (map o_id (orders s))" by simp
  then obtain row where row: "row \<in> set (orders s)" "o_id row = oid" by auto
  then show "\<exists>row \<in> set (orders s). o_id row = oid" by blast
  from conforming_order_ids [OF assms(1)] row(1) have "1 \<le> o_id row"
    unfolding list_all_iff by blast
  with row(2) show "oid \<noteq> 0" by simp
qed

lemma shop_conforms: "schema_conforming shop"
  by (simp add: schema_conforming_def shop_def example_rows)

text \<open>
  Claim C1. In a database that conforms to the schema, a complaint with a non-null
  \<open>order_id\<close> gets every payment event and every logistics event of that order, each
  list ascending by \<open>logged_at\<close>; \<open>window_hours\<close> is copied into the result and changes
  nothing else: the result for any other window differs in that field only.
\<close>

theorem complaint_context_logs_all_events:
  assumes "schema_conforming s"
    and "c \<in> set (complaints s)"
    and "c_order_id c = Some oid"
  shows "\<exists>r. get_complaint_context_logs s (c_id c) wh = Some r
    \<and> mset (ctx_payment_logs r) = mset (filter (\<lambda>p. p_order_id p = oid) (payment_logs s))
    \<and> sorted (map p_logged_at (ctx_payment_logs r))
    \<and> mset (ctx_logistics_logs r) = mset (filter (\<lambda>l. l_order_id l = oid) (logistics_logs s))
    \<and> sorted (map l_logged_at (ctx_logistics_logs r))
    \<and> ctx_window_hours r = wh
    \<and> (\<forall>wh'. get_complaint_context_logs s (c_id c) wh' = Some (r\<lparr>ctx_window_hours := wh'\<rparr>))"
proof -
  have "distinct (map c_id (complaints s))"
    using assms(1) by (rule conforming_complaint_ids)
  then have found: "fetch_one (filter (\<lambda>x. c_id x = c_id c) (complaints s)) = Some c"
    using assms(2) by (rule fetch_one_filter_distinct)
  have "oid \<noteq> 0"
    using assms by (rule conforming_order_reference)
  then have truthy: "py_truthy (c_order_id c)"
    using assms(3) by (simp add: py_truthy_def)
  show ?thesis
    using assms(3) truthy by (simp add: context_logs_of_complaint [OF found])
qed

theorem complaint_context_logs_all_events_witness:
  "schema_conforming shop
   \<and> mk_complaint 7 5 (Some 15) ''2024-03-06 18:00:00'' \<in> set (complaints shop)
   \<and> (\<exists>r. get_complaint_context_logs shop 7 48 = Some r
    \<and> mset (ctx_payment_logs r) = mset (filter (\<lambda>p. p_order_id p = 15) (payment_logs shop))
    \<and> sorted (map p_logged_at (ctx_payment_logs r))
    \<and> mset (ctx_logistics_logs r) = mset (filter (\<lambda>l. l_order_id l = 15) (logistics_logs shop))
    \<and> sorted (map l_logged_at (ctx_logistics_logs r))
    \<and> ctx_window_hours r = 48
    \<and> (\<forall>wh'. get_complaint_context_logs shop 7 wh' = Some (r\<lparr>ctx_window_hours := wh'\<rparr>)))
   \<and> map_option (\<lambda>r. map p_id (ctx_payment_logs r)) (get_complaint_context_logs shop 7 48)
      = Some [1, 2]"
proof -
  have c: "mk_complaint 7 5 (Some 15) ''2024-03-06 18:00:00'' \<in> set (complaints shop)"
    by (simp add: shop_def)
  have oid: "c_order_id (mk_complaint 7 5 (Some 15) ''2024-03-06 18:00:00'') = Some 15"
    by (simp add: mk_complaint_def)
  have id: "c_id (mk_complaint 7 5 (Some 15) ''2024-03-06 18:00:00'') = 7"
    by (simp add: mk_complaint_def)
  note inst = complaint_context_logs_all_events [OF shop_conforms c oid, of 48, unfolded id]
  have ids: "map_option (\<lambda>r. map p_id (ctx_payment_logs r)) (get_complaint_context_logs shop 7 48)
      = Some [1, 2]"
    by (simp add: get_complaint_context_logs_def shop_def example_rows fetch_one_def
        fetch_all_def py_truthy_def)
  from shop_conforms c inst ids show ?thesis
    by (intro conjI)
qed

text \<open>
  Claim C8. An id with no complaint row gives \<open>None\<close>. Otherwise the result carries the
  complaint row \<open>c\<close> with that id; its \<open>user\<close> is non-null whenever a user row with the
  complaint's \<open>user_id\<close> exists; and, in a database that conforms to the schema, its
  \<open>order\<close> is null exactly when the complaint's \<open>order_id\<close> is null.
\<close>

theorem complaint_context_lookup:
  "if \<exists>c \<in> set (complaints s). c_id c = cid
   then \<exists>c r. c \<in> set (complaints s) \<and> c_id c = cid
      \<and> get_complaint_context_logs s cid wh = Some r
      \<and> ctx_complaint r = c
      \<and> ((\<exists>u \<in> set (users s). u_id u = c_user_id c) \<longrightarrow> ctx_user r \<noteq> None)
      \<and> (schema_conforming s \<longrightarrow> (ctx_order r = None \<longleftrightarrow> c_order_id c = None))
   else get_complaint_context_logs s cid wh = None"
proof (cases "\<exists>c \<in> set (complaints s). c_id c = cid")
  case False
  then have "fetch_one (filter (\<lambda>c. c_id c = cid) (complaints s)) = None"
    using fetch_one_filter_None [of "\<lambda>c. c_id c = cid" "complaints s"] by blast
  then show ?thesis
    using False by (simp add: get_complaint_context_logs_def)
next
  case True
  then obtain c where found: "fetch_one (filter (\<lambda>c. c_id c = cid) (complaints s)) = Some c"
    using fetch_one_filter_None [of "\<lambda>c. c_id c = cid" "complaints s"] by auto
  have c: "c \<in> set (complaints s)" "c_id c = cid"
    using fetch_one_filter_Some [OF found] by simp_all
  have user: "(\<exists>u \<in> set (users s). u_id u = c_user_id c) \<longrightarrow>
      fetch_one (filter (\<lambda>u. u_id u = c_user_id c) (users s)) \<noteq> None"
    by (simp add: fetch_one_filter_None)
  have order: "(if py_truthy (c_order_id c)
          then fetch_one (filter (\<lambda>row. o_id row = the (c_order_id c)) (orders s))
          else None) = None \<longleftrightarrow> c_order_id c = None" if conf: "schema_conforming s"
  proof (cases "c_order_id c")
    case None
    then show ?thesis by (simp add: py_truthy_def)
  next
    case (Some oid)
    from conforming_order_reference [OF conf c(1) Some]
    have "oid \<noteq> 0" "\<exists>row \<in> set (orders s). o_id row = oid" by simp_all
    then show ?thesis
      using Some fetch_one_filter_None [of "\<lambda>row. o_id row = oid" "orders s"]
      by (simp add: py_truthy_def)
  qed
  show ?thesis
    using True c user order by (simp add: context_logs_of_complaint [OF found])
qed

theorem complaint_context_lookup_witness:
  "schema_conforming shop
   \<and> (\<exists>c \<in> set (complaints shop). c_id c = 7)
   \<and> (\<exists>c r. c \<in> set (complaints shop) \<and> c_id c = 7
      \<and> get_complaint_context_logs shop 7 48 = Some r
      \<and> ctx_complaint r = c
      \<and> ((\<exists>u \<in> set (users shop). u_id u = c_user_id c) \<longrightarrow> ctx_user r \<noteq> None)
      \<and> (schema_conforming shop \<longrightarrow> (ctx_order r = None \<longleftrightarrow> c_order_id c = None)))
   \<and> \<not> (\<exists>c \<in> set (complaints shop). c_id c = 4)
   \<and> get_complaint_context_logs shop 4 48 = None"
proof -
  have present: "\<exists>c \<in> set (complaints shop). c_id c = 7"
    by (simp add: shop_def mk_complaint_def)
  have absent: "\<not> (\<exists>c \<in> set (complaints shop). c_id c = 4)"
    by (simp add: shop_def mk_complaint_def)
  note found = complaint_context_lookup [of shop 7 48, unfolded if_P [OF present]]
  note none = complaint_context_lookup [of shop 4 48, unfolded if_not_P [OF absent]]
  from shop_conforms present found absent none show ?thesis
    by (intro conjI)
qed

lemma shop_complaint_8:
  "map_option c_order_id (fetch_one (filter (\<lambda>c. c_id c = 8) (complaints shop))) = Some None"
  "map_option ctx_order (get_complaint_context_logs shop 8 48) = Some None"
  "map_option (\<lambda>r. map_option o_id (ctx_order r)) (get_complaint_context_logs shop 7 48)
     = Some (Some 15)"
  by (simp_all add: get_complaint_context_logs_def shop_def example_rows fetch_one_def
      py_truthy_def)

section \<open>Properties of the SQL building blocks\<close>

lemma fetch_one_map: "fetch_one (map f xs) = map_option f (fetch_one xs)"
  by (cases xs) (simp_all add: fetch_one_def)

lemma sql_min_eq: "sql_min xs = (if xs = [] then None else Some (Min (set xs)))"
proof (cases xs)
  case Nil
  then show ?thesis by simp
next
  case (Cons x ys)
  have "fold min ys x = Min (set (x # ys))"
    by (rule Min.set_eq_fold [symmetric])
  with Cons show ?thesis by simp
qed

lemma sql_max_eq: "sql_max xs = (if xs = [] then None else Some (Max (set xs)))"
proof (cases xs)
  case Nil
  then show ?thesis by simp
next
  case (Cons x ys)
  have "fold max ys x = Max (set (x # ys))"
    by (rule Max.set_eq_fold [symmetric])
  with Cons show ?thesis by simp
qed

lemma group_rows:
  "concat (map (\<lambda>g. case g of [] \<Rightarrow> [] | e # _ \<Rightarrow> [(key e, F g)]) (group_by key rows))
   = map (\<lambda>k. (k, F (filter (\<lambda>r. key r = k) rows))) (remdups (map key rows))"
proof -
  have one: "(case filter (\<lambda>r. key r = k) rows of [] \<Rightarrow> [] | e # _ \<Rightarrow> [(key e, F (filter (\<lambda>r. key r = k) rows))])
      = [(k, F (filter (\<lambda>r. key r = k) rows))]" if "k \<in> set (remdups (map key rows))" for k
  proof (cases "filter (\<lambda>r. key r = k) rows")
    case Nil
    then show ?thesis using that by (auto simp: filter_empty_conv)
  next
    case (Cons e es)
    then have "e \<in> set (filter (\<lambda>r. key r = k) rows)" by simp
    then have "key e = k" by simp
    with Cons show ?thesis by simp
  qed
  have "concat (map (\<lambda>k. case filter (\<lambda>r. key r = k) rows of [] \<Rightarrow> [] | e # _ \<Rightarrow> [(key e, F (filter (\<lambda>r. key r = k) rows))]) ks)
      = map (\<lambda>k. (k, F (filter (\<lambda>r. key r = k) rows))) ks" if "set ks \<subseteq> set (remdups (map key rows))" for ks
    using that by (induction ks) (simp_all add: one)
  then show ?thesis
    by (simp add: group_by_def comp_def)
qed

lemma lookup_group:
  "fetch_one (filter (\<lambda>d. fst d = k) (map (\<lambda>k. (k, h k)) (remdups ks)))
   = (if k \<in> set ks then Some (k, h k) else None)"
proof -
  have "filter (\<lambda>d. fst d = k) (map (\<lambda>k. (k, h k)) ys) = (if k \<in> set ys then [(k, h k)] else [])"
    if "distinct ys" for ys
    using that by (induction ys) auto
  from this [of "remdups ks"] show ?thesis by (simp add: fetch_one_def)
qed

lemma filter_group_length:
  "length (filter (\<lambda>d. fst d = k) (map (\<lambda>k. (k, h k)) (remdups ks))) \<le> 1"
proof -
  have "filter (\<lambda>d. fst d = k) (map (\<lambda>k. (k, h k)) ys) = (if k \<in> set ys then [(k, h k)] else [])"
    if "distinct ys" for ys
    using that by (induction ys) auto
  from this [of "remdups ks"] show ?thesis by simp
qed

lemma left_join_unique:
  assumes "\<And>x. x \<in> set xs \<Longrightarrow> length (filter (on x) ys) \<le> 1"
  shows "left_join xs ys on = map (\<lambda>x. (x, fetch_one (filter (on x) ys))) xs"
proof -
  have "(case filter (on x) ys of [] \<Rightarrow> [(x, None)] | m # ms \<Rightarrow> map (\<lambda>y. (x, Some y)) (m # ms))
      = [(x, fetch_one (filter (on x) ys))]" if "x \<in> set xs" for x
    using assms [OF that] by (cases "filter (on x) ys") (simp_all add: fetch_one_def)
  then have "map (\<lambda>x. case filter (on x) ys of [] \<Rightarrow> [(x, None)] | m # ms \<Rightarrow> map (\<lambda>y. (x, Some y)) (m # ms)) xs
     = map (\<lambda>x. [(x, fetch_one (filter (on x) ys))]) xs"
    by simp
  then show ?thesis
    by (simp add: left_join_def del: map_eq_conv)
qed

section \<open>Delivery time of an order\<close>

lemma dispatch_times_eq:
  "dispatch_times s = map (\<lambda>k. (k, sql_min (event_times s k ''dispatched'')))
     (remdups (map l_order_id (filter (\<lambda>e. l_event_type e = ''dispatched'') (logistics_logs s))))"
  unfolding dispatch_times_def event_times_def
  by (simp add: group_rows [where F = "\<lambda>g. sql_min (map l_logged_at g)"] conj_commute)

lemma delivery_times_eq:
  "delivery_times s = map (\<lambda>k. (k, sql_max (event_times s k ''delivered'')))
     (remdups (map l_order_id (filter (\<lambda>e. l_event_type e = ''delivered'') (logistics_logs s))))"
  unfolding delivery_times_def event_times_def
  by (simp add: group_rows [where F = "\<lambda>g. sql_max (map l_logged_at g)"] conj_commute)

lemma event_times_empty:
  "k \<notin> l_order_id ` set (filter (\<lambda>e. l_event_type e = ev) (logistics_logs s)) \<Longrightarrow> event_times s k ev = []"
  by (auto simp: event_times_def filter_empty_conv)

lemma shipped_at_eq:
  "Option.bind (fetch_one (filter (\<lambda>d. fst d = k) (dispatch_times s))) snd
   = sql_min (event_times s k ''dispatched'')"
  using event_times_empty [of k "''dispatched''" s]
  by (simp add: dispatch_times_eq lookup_group)

lemma delivered_at_eq:
  "Option.bind (fetch_one (filter (\<lambda>d. fst d = k) (delivery_times s))) snd
   = sql_max (event_times s k ''delivered'')"
  using event_times_empty [of k "''delivered''" s]
  by (simp add: delivery_times_eq lookup_group)

lemma delivery_time_of_order:
  "get_order_delivery_time jd s oid =
     map_option (\<lambda>row.
       \<lparr>dt_order_id = o_id row, dt_item = o_item row,
        dt_tracking_number = o_tracking_number row,
        dt_ordered_at = o_ordered_at row,
        dt_shipped_at = sql_min (event_times s (o_id row) ''dispatched''),
        dt_delivered_at = sql_max (event_times s (o_id row) ''delivered''),
        dt_processing_hours = map_option (sql_round 1)
          (hours_between jd (sql_min (event_times s (o_id row) ''dispatched'')) (Some (o_ordered_at row))),
        dt_shipping_hours = map_option (sql_round 1)
          (hours_between jd (sql_max (event_times s (o_id row) ''delivered''))
             (sql_min (event_times s (o_id row) ''dispatched''))),
        dt_total_hours = map_option (sql_round 1)
          (hours_between jd (sql_max (event_times s (o_id row) ''delivered'')) (Some (o_ordered_at row)))\<rparr>)
     (fetch_one (filter (\<lambda>row. o_id row = oid) (orders s)))"
proof -
  have j1: "left_join (orders s) (dispatch_times s) (\<lambda>row d. fst d = o_id row)
      = map (\<lambda>row. (row, fetch_one (filter (\<lambda>d. fst d = o_id row) (dispatch_times s)))) (orders s)"
    by (rule left_join_unique) (unfold dispatch_times_eq, rule filter_group_length)
  have one: "length (filter ((\<lambda>(row, _) d. fst d = o_id row) x) (delivery_times s)) \<le> 1"
    for x :: "order_row \<times> (int \<times> string option) option"
  proof -
    obtain row y where x: "x = (row, y)" by (cases x)
    show ?thesis
      unfolding x prod.case delivery_times_eq by (rule filter_group_length)
  qed
  have j2: "left_join xs (delivery_times s) (\<lambda>(row, _) d. fst d = o_id row)
      = map (\<lambda>x. (x, fetch_one (filter ((\<lambda>(row, _) d. fst d = o_id row) x) (delivery_times s)))) xs"
    for xs :: "(order_row \<times> (int \<times> string option) option) list"
    by (rule left_join_unique) (rule one)
  show ?thesis
    unfolding get_order_delivery_time_def j1 j2
    by (simp add: filter_map comp_def fetch_one_map option.map_comp shipped_at_eq delivered_at_eq Let_def split_def)
qed


lemma hours_between_None [simp]:
  "hours_between jd None b = None" "hours_between jd a None = None"
  by (simp_all add: hours_between_def split: option.splits)

text \<open>
  Claim C7. For an order id with a row in \<open>orders\<close>, whatever the order's status,
  the query returns a row in which \<open>shipped_at\<close> is the least time of the order's
  \<open>dispatched\<close> events and \<open>delivered_at\<close> the greatest time of its \<open>delivered\<close>
  events, each null when there is no such event. The three durations are the differences
  of the day numbers in hours, rounded to one decimal place, and a duration is null
  (never 0) whenever one of its anchors is missing: without a \<open>dispatched\<close> event
  \<open>processing_hours\<close> and \<open>shipping_hours\<close> are null, without a \<open>delivered\<close> event
  \<open>shipping_hours\<close> and \<open>total_hours\<close> are null.
\<close>

theorem order_delivery_time_anchors:
  assumes "\<exists>row \<in> set (orders s). o_id row = oid"
  shows "\<exists>r row. get_order_delivery_time jd s oid = Some r
    \<and> row \<in> set (orders s) \<and> o_id row = oid
    \<and> dt_order_id r = oid \<and> dt_ordered_at r = o_ordered_at row
    \<and> dt_shipped_at r =
        (if event_times s oid ''dispatched'' = [] then None
         else Some (Min (set (event_times s oid ''dispatched''))))
    \<and> dt_delivered_at r =
        (if event_times s oid ''delivered'' = [] then None
         else Some (Max (set (event_times s oid ''delivered''))))
    \<and> dt_processing_hours r = map_option (sql_round 1)
        (hours_between jd (dt_shipped_at r) (Some (o_ordered_at row)))
    \<and> dt_shipping_hours r = map_option (sql_round 1)
        (hours_between jd (dt_delivered_at r) (dt_shipped_at r))
    \<and> dt_total_hours r = map_option (sql_round 1)
        (hours_between jd (dt_delivered_at r) (Some (o_ordered_at row)))
    \<and> (event_times s oid ''dispatched'' = [] \<longrightarrow>
         dt_processing_hours r = None \<and> dt_shipping_hours r = None)
    \<and> (event_times s oid ''delivered'' = [] \<longrightarrow>
         dt_shipping_hours r = None \<and> dt_total_hours r = None)"
proof -
  obtain row where found: "fetch_one (filter (\<lambda>row. o_id row = oid) (orders s)) = Some row"
    using assms fetch_one_filter_None [of "\<lambda>row. o_id row = oid" "orders s"] by auto
  have row: "row \<in> set (orders s)" "o_id row = oid"
    using fetch_one_filter_Some [OF found] by simp_all
  define shipped where "shipped = sql_min (event_times s oid ''dispatched'')"
  define delivered where "delivered = sql_max (event_times s oid ''delivered'')"
  define r where "r =
    \<lparr>dt_order_id = o_id row, dt_item = o_item row,
     dt_tracking_number = o_tracking_number row,
     dt_ordered_at = o_ordered_at row,
     dt_shipped_at = shipped, dt_delivered_at = delivered,
     dt_processing_hours = map_option (sql_round 1)
       (hours_between jd shipped (Some (o_ordered_at row))),
     dt_shipping_hours = map_option (sql_round 1) (hours_between jd delivered shipped),
     dt_total_hours = map_option (sql_round 1)
       (hours_between jd delivered (Some (o_ordered_at row)))\<rparr>"
  have res: "get_order_delivery_time jd s oid = Some r"
    by (simp add: delivery_time_of_order found r_def shipped_def delivered_def row)
  have shipped: "shipped = (if event_times s oid ''dispatched'' = [] then None
         else Some (Min (set (event_times s oid ''dispatched''))))"
    by (simp add: shipped_def sql_min_eq)
  have delivered: "delivered = (if event_times s oid ''delivered'' = [] then None
         else Some (Max (set (event_times s oid ''delivered''))))"
    by (simp add: delivered_def sql_max_eq)
  have none1: "event_times s oid ''dispatched'' = [] \<longrightarrow>
         dt_processing_hours r = None \<and> dt_shipping_hours r = None"
    by (simp add: r_def shipped)
  have none2: "event_times s oid ''delivered'' = [] \<longrightarrow>
         dt_shipping_hours r = None \<and> dt_total_hours r = None"
    by (simp add: r_def delivered)
  have fields: "dt_order_id r = oid" "dt_ordered_at r = o_ordered_at row"
    "dt_shipped_at r = shipped" "dt_delivered_at r = delivered"
    "dt_processing_hours r = map_option (sql_round 1)
        (hours_between jd (dt_shipped_at r) (Some (o_ordered_at row)))"
    "dt_shipping_hours r = map_option (sql_round 1)
        (hours_between jd (dt_delivered_at r) (dt_shipped_at r))"
    "dt_total_hours r = map_option (sql_round 1)
        (hours_between jd (dt_delivered_at r) (Some (o_ordered_at row)))"
    by (simp_all add: r_def row)
  show ?thesis
    using res row fields(1,2,5,6,7) none1 none2
      fields(3) [unfolded shipped] fields(4) [unfolded delivered]
    by blast
qed

lemma jd_examples:
  "julianday ''2024-03-01 09:00:00'' = Some (19682967 / 8)"
  "julianday ''2024-03-02 09:00:00'' = Some (19682975 / 8)"
  "julianday ''2024-03-04 15:00:00'' = Some (19682993 / 8)"
  by (simp_all add: julianday_def digits_val_def julian_day_number_def)

lemma shop_events_15:
  "event_times shop 15 ''dispatched'' = [''2024-03-02 09:00:00'']"
  "event_times shop 15 ''delivered'' = [''2024-03-04 15:00:00'']"
  by (simp_all add: event_times_def shop_def mk_logistics_def)

lemma shop_orders_15:
  "fetch_one (filter (\<lambda>row. o_id row = 15) (orders shop))
     = Some (mk_order 15 5 2499 ''shipped'' ''2024-03-01 09:00:00'')"
  by (simp add: shop_def mk_order_def fetch_one_def)

lemma shop_order_15:
  "get_order_delivery_time julianday shop 15 =
     Some \<lparr>dt_order_id = 15, dt_item = ''Headphones'',
       dt_tracking_number = Some ''TRK100015'',
       dt_ordered_at = ''2024-03-01 09:00:00'',
       dt_shipped_at = Some ''2024-03-02 09:00:00'',
       dt_delivered_at = Some ''2024-03-04 15:00:00'',
       dt_processing_hours = Some 24, dt_shipping_hours = Some 54,
       dt_total_hours = Some 78\<rparr>"
  unfolding delivery_time_of_order shop_orders_15
  by (simp add: mk_order_def shop_events_15 hours_between_def jd_examples sql_round_def floor_unique)

theorem order_delivery_time_anchors_witness:
  "(\<exists>row \<in> set (orders shop). o_id row = 15)
   \<and> (\<exists>r. get_order_delivery_time julianday shop 15 = Some r
      \<and> dt_shipped_at r = Some (Min (set (event_times shop 15 ''dispatched'')))
      \<and> dt_shipped_at r = Some ''2024-03-02 09:00:00''
      \<and> dt_delivered_at r = Some (Max (set (event_times shop 15 ''delivered'')))
      \<and> dt_delivered_at r = Some ''2024-03-04 15:00:00''
      \<and> dt_processing_hours r = Some 24
      \<and> dt_shipping_hours r = Some 54
      \<and> dt_total_hours r = Some 78)"
proof -
  have h: "\<exists>row \<in> set (orders shop). o_id row = 15"
    by (simp add: shop_def mk_order_def)
  from order_delivery_time_anchors [OF h, of julianday]
  obtain r where r: "get_order_delivery_time julianday shop 15 = Some r"
    and shipped: "dt_shipped_at r =
        (if event_times shop 15 ''dispatched'' = [] then None
         else Some (Min (set (event_times shop 15 ''dispatched''))))"
    and delivered: "dt_delivered_at r =
        (if event_times shop 15 ''delivered'' = [] then None
         else Some (Max (set (event_times shop 15 ''delivered''))))"
    by blast
  have hours: "dt_processing_hours r = Some 24" "dt_shipping_hours r = Some 54"
    "dt_total_hours r = Some 78"
    using r unfolding shop_order_15 by auto
  show ?thesis
    using h r shipped delivered hours by (simp add: shop_events_15)
qed


section \<open>Customers with and without orders\<close>

lemma set_sql_limit: "set (sql_limit n xs) \<subseteq> set xs"
  by (auto simp: sql_limit_def dest: in_set_takeD)

lemma group_by_subset: "g \<in> set (group_by key rows) \<Longrightarrow> set g \<subseteq> set rows"
  by (auto simp: group_by_def)

lemma inner_join_iff:
  "(x, y) \<in> set (inner_join xs ys on) \<longleftrightarrow> x \<in> set xs \<and> y \<in> set ys \<and> on x y"
  by (auto simp: inner_join_def)

lemma top_customer_has_order:
  assumes "r \<in> set (get_top_customers s limit)"
  shows "\<exists>row \<in> set (orders s). o_user_id row = tc_user_id r"
proof -
  let ?J = "inner_join (users s) (orders s) (\<lambda>u row. o_user_id row = u_id u)"
  from assms set_sql_limit obtain g where g: "g \<in> set (group_by (\<lambda>(u, _). u_id u) ?J)"
    and r: "r \<in> set (case g of [] \<Rightarrow> [] | (u, _) # _ \<Rightarrow>
                    [\<lparr>tc_user_id = u_id u, tc_name = u_name u, tc_email = u_email u,
                      tc_city = u_city u,
                      tc_order_count = sql_count (map (\<lambda>(_, row). Some (o_id row)) g),
                      tc_total_spent = map_option (sql_round 2)
                        (sql_sum (map (\<lambda>(_, row). Some (o_total_amount row)) g)),
                      tc_avg_order_value = map_option (sql_round 2)
                        (sql_avg (map (\<lambda>(_, row). Some (o_total_amount row)) g)),
                      tc_last_order_at = sql_max (map (\<lambda>(_, row). o_ordered_at row) g)\<rparr>])"
    unfolding get_top_customers_def fetch_all_def by fastforce
  from r obtain u row rest where shape: "g = (u, row) # rest" and id: "tc_user_id r = u_id u"
    by (cases g) (auto split: prod.splits)
  from g shape have "(u, row) \<in> set ?J"
    using group_by_subset by fastforce
  then have "row \<in> set (orders s)" "o_user_id row = u_id u"
    by (simp_all add: inner_join_iff)
  with id show ?thesis by auto
qed

lemma left_join_filter_left:
  "filter (\<lambda>(x, _). P x) (left_join xs ys on) = left_join (filter P xs) ys on"
  by (induction xs) (auto simp: left_join_def split: list.splits)

lemma left_join_no_match:
  "(\<And>x. x \<in> set xs \<Longrightarrow> filter (on x) ys = []) \<Longrightarrow> left_join xs ys on = map (\<lambda>x. (x, None)) xs"
  by (induction xs) (simp_all add: left_join_def)

lemma group_by_single:
  assumes "rows \<noteq> []" and "\<And>r. r \<in> set rows \<Longrightarrow> key r = k"
  shows "group_by key rows = [rows]"
proof -
  have "remdups (map key xs) = [k]" if "xs \<noteq> []" "\<And>r. r \<in> set xs \<Longrightarrow> key r = k" for xs
    using that
  proof (induction xs)
    case Nil
    then show ?case by simp
  next
    case (Cons a xs)
    show ?case
    proof (cases "xs = []")
      case True
      then show ?thesis using Cons.prems(2) by simp
    next
      case False
      then obtain b where "b \<in> set xs" by (cases xs) auto
      then have "key a \<in> set (map key xs)"
        using Cons.prems(2) by (force simp: image_iff)
      moreover have "remdups (map key xs) = [k]"
        using False Cons.IH Cons.prems(2) by simp
      ultimately show ?thesis by simp
    qed
  qed
  from this [OF assms] have "remdups (map key rows) = [k]" .
  moreover have "filter (\<lambda>r. key r = k) rows = rows"
    using assms(2) by (simp add: filter_id_conv)
  ultimately show ?thesis by (simp add: group_by_def)
qed

lemma non_null_Nones: "non_null (map (\<lambda>x. None) xs) = []"
  by (induction xs) (simp_all add: non_null_def)

lemma sql_round_zero: "sql_round n 0 = 0"
proof -
  have "\<lfloor>1 / 2 :: rat\<rfloor> = 0"
    by (rule floor_unique) simp_all
  then show ?thesis by (simp add: sql_round_def)
qed

lemma lifetime_value_no_orders:
  assumes "u \<in> set (users s)"
    and "\<not> (\<exists>row \<in> set (orders s). o_user_id row = u_id u)"
  shows "\<exists>r. get_user_lifetime_value s (u_id u) = Some r
     \<and> ltv_id r = u_id u \<and> ltv_total_orders r = 0 \<and> ltv_total_spent r = 0"
proof -
  let ?us = "filter (\<lambda>x. u_id x = u_id u) (users s)"
  let ?rows = "map (\<lambda>x. (x, None :: order_row option)) ?us"
  have ne: "?us \<noteq> []"
    using assms(1) by (auto simp: filter_empty_conv)
  have none: "filter (\<lambda>row. o_user_id row = u_id x) (orders s) = []" if "x \<in> set ?us" for x
    using that assms(2) by (auto simp: filter_empty_conv)
  have joined: "filter (\<lambda>(x, _). u_id x = u_id u)
         (left_join (users s) (orders s) (\<lambda>x row. o_user_id row = u_id x)) = ?rows"
    unfolding left_join_filter_left by (rule left_join_no_match) (rule none)
  have groups: "group_by (\<lambda>(x, _). u_id x) ?rows = [?rows]"
    by (rule group_by_single) (use ne in auto)
  obtain x xs where shape: "?us = x # xs"
    using ne by (cases ?us) auto
  then have "x \<in> set ?us" by simp
  then have x: "u_id x = u_id u" by simp
  have cnt: "sql_count (map (\<lambda>(_, row). map_option o_id row) ?rows) = 0"
    by (simp add: sql_count_def comp_def non_null_Nones)
  have sum: "sql_sum (map (\<lambda>(_, row). map_option o_total_amount row) ?rows) = None"
    by (simp add: sql_sum_def comp_def non_null_Nones)
  show ?thesis
    unfolding get_user_lifetime_value_def joined groups
    using cnt sum x
    by (simp add: shape fetch_one_def coalesce_def sql_round_zero del: filter.simps)
qed


text \<open>
  Claim C10. A user row without any order is in no result of \<open>get_top_customers\<close>,
  whatever the limit (the inner join drops it), while \<open>get_user_lifetime_value\<close> for
  that user returns a row with \<open>total_orders = 0\<close> and \<open>total_spent = 0\<close> (the left
  join keeps it).
\<close>

theorem zero_order_user_joins:
  assumes "u \<in> set (users s)"
    and "\<not> (\<exists>row \<in> set (orders s). o_user_id row = u_id u)"
  shows "u_id u \<notin> tc_user_id ` set (get_top_customers s limit)
    \<and> (\<exists>r. get_user_lifetime_value s (u_id u) = Some r
         \<and> ltv_id r = u_id u \<and> ltv_total_orders r = 0 \<and> ltv_total_spent r = 0)"
proof -
  have "u_id u \<notin> tc_user_id ` set (get_top_customers s limit)"
    using assms(2) top_customer_has_order [of _ s limit] by force
  with lifetime_value_no_orders [OF assms] show ?thesis by simp
qed

lemma shop_top_customers: "map tc_user_id (get_top_customers shop 10) = [5]"
  by (simp add: get_top_customers_def fetch_all_def sql_limit_def inner_join_def group_by_def
      shop_def mk_user_def mk_order_def)

theorem zero_order_user_joins_witness:
  "mk_user 6 ''Anita Rao'' ''anita@example.in'' \<in> set (users shop)
   \<and> \<not> (\<exists>row \<in> set (orders shop). o_user_id row = 6)
   \<and> 6 \<notin> tc_user_id ` set (get_top_customers shop 10)
   \<and> map tc_user_id (get_top_customers shop 10) = [5]
   \<and> (\<exists>r. get_user_lifetime_value shop 6 = Some r
         \<and> ltv_id r = 6 \<and> ltv_total_orders r = 0 \<and> ltv_total_spent r = 0)"
proof -
  have h1: "mk_user 6 ''Anita Rao'' ''anita@example.in'' \<in> set (users shop)"
    by (simp add: shop_def)
  have h2: "\<not> (\<exists>row \<in> set (orders shop). o_user_id row = u_id (mk_user 6 ''Anita Rao'' ''anita@example.in''))"
    by (simp add: shop_def mk_user_def mk_order_def)
  have id: "u_id (mk_user 6 ''Anita Rao'' ''anita@example.in'') = 6"
    by (simp add: mk_user_def)
  show ?thesis
    using zero_order_user_joins [OF h1 h2, of 10] h1 h2 shop_top_customers
    unfolding id by simp
qed


section \<open>Carrier performance\<close>

lemma carrier_shop_spans:
  "order_spans carrier_shop =
     [(1, Some ''2024-03-01 08:00:00'', Some ''2024-03-02 08:00:00''),
      (2, Some ''2024-03-03 08:00:00'', Some ''2024-03-05 08:00:00''),
      (3, Some ''2024-03-06 09:00:00'', None)]"
  by (simp add: order_spans_def group_by_def carrier_shop_def mk_logistics_def non_null_def)


lemma carrier_shop_jd:
  "julianday ''2024-03-01 08:00:00'' = Some (14762225 / 6)"
  "julianday ''2024-03-02 08:00:00'' = Some (14762231 / 6)"
  "julianday ''2024-03-03 08:00:00'' = Some (14762237 / 6)"
  "julianday ''2024-03-05 08:00:00'' = Some (14762249 / 6)"
  by (simp_all add: julianday_def digits_val_def julian_day_number_def)

lemma carrier_shop_span_hours:
  "span_hours julianday (Some (1, Some ''2024-03-01 08:00:00'', Some ''2024-03-02 08:00:00'')) = Some 24"
  "span_hours julianday (Some (2, Some ''2024-03-03 08:00:00'', Some ''2024-03-05 08:00:00'')) = Some 48"
  "span_hours julianday (Some (3, Some ''2024-03-06 09:00:00'', None)) = None"
  by (simp_all add: span_hours_def hours_between_def carrier_shop_jd)

lemma round_examples: "sql_round (Suc 0) (168 / 5) = 168 / 5" "sql_round (Suc 0) 36 = 36"
  by (simp_all add: sql_round_def floor_unique)

text \<open>
  Claim C2 on \<open>carrier_shop\<close>. BlueDart handled two delivered orders with spans of 24
  and 48 hours, so the average over orders is 36 hours. The query reports 33.6: it
  averages over the joined event rows, so the span of order 1 enters three times and
  the span of order 2 twice, \<open>(3 * 24 + 2 * 48) / 5\<close>. Delhivery, without a delivered
  order, gets a null average.
\<close>

theorem carrier_average_weighted_by_events:
  "get_carrier_performance julianday carrier_shop =
     [\<lparr>cp_carrier = ''BlueDart'', cp_total_events = 5, cp_orders_handled = 2,
       cp_avg_delivery_hours = Some (168 / 5)\<rparr>,
      \<lparr>cp_carrier = ''Delhivery'', cp_total_events = 1, cp_orders_handled = 1,
       cp_avg_delivery_hours = None\<rparr>]
   \<and> avg_span_per_order julianday carrier_shop ''BlueDart'' = Some 36"
proof -
  have joined: "left_join (logistics_logs carrier_shop) (order_spans carrier_shop)
      (\<lambda>ll d. fst d = l_order_id ll) =
     [(mk_logistics 1 1 ''BlueDart'' ''label_created'' ''2024-03-01 08:00:00'',
         Some (1, Some ''2024-03-01 08:00:00'', Some ''2024-03-02 08:00:00'')),
      (mk_logistics 2 1 ''BlueDart'' ''dispatched'' ''2024-03-01 12:00:00'',
         Some (1, Some ''2024-03-01 08:00:00'', Some ''2024-03-02 08:00:00'')),
      (mk_logistics 3 1 ''BlueDart'' ''delivered'' ''2024-03-02 08:00:00'',
         Some (1, Some ''2024-03-01 08:00:00'', Some ''2024-03-02 08:00:00'')),
      (mk_logistics 4 2 ''BlueDart'' ''dispatched'' ''2024-03-03 08:00:00'',
         Some (2, Some ''2024-03-03 08:00:00'', Some ''2024-03-05 08:00:00'')),
      (mk_logistics 5 2 ''BlueDart'' ''delivered'' ''2024-03-05 08:00:00'',
         Some (2, Some ''2024-03-03 08:00:00'', Some ''2024-03-05 08:00:00'')),
      (mk_logistics 6 3 ''Delhivery'' ''dispatched'' ''2024-03-06 09:00:00'',
         Some (3, Some ''2024-03-06 09:00:00'', None))]"
    unfolding carrier_shop_spans
    by (simp add: left_join_def carrier_shop_def mk_logistics_def)
  have code: "get_carrier_performance julianday carrier_shop =
     [\<lparr>cp_carrier = ''BlueDart'', cp_total_events = 5, cp_orders_handled = 2,
       cp_avg_delivery_hours = Some (168 / 5)\<rparr>,
      \<lparr>cp_carrier = ''Delhivery'', cp_total_events = 1, cp_orders_handled = 1,
       cp_avg_delivery_hours = None\<rparr>]"
    unfolding get_carrier_performance_def joined
    by (simp add: group_by_def mk_logistics_def fetch_all_def carrier_shop_span_hours
        sql_avg_def non_null_def round_examples)
  have spec: "avg_span_per_order julianday carrier_shop ''BlueDart'' = Some 36"
    unfolding avg_span_per_order_def carrier_shop_spans
    by (simp add: carrier_shop_def mk_logistics_def fetch_one_def carrier_shop_span_hours
        sql_avg_def non_null_def round_examples)
  from code spec show ?thesis by simp
qed

section \<open>Tool dispatch\<close>

lemma dispatch_names: "map fst TOOL_DISPATCH = map tool_name TOOLS"
  by (simp add: TOOL_DISPATCH_def TOOLS_def)

lemma unknown_tool:
  assumes "name \<notin> set (map tool_name TOOLS)"
  shows "handle_call_tool repo dumps name arguments st =
     (Inl (ValueError (''Unknown tool: '' @ name)), st)"
proof -
  have "name \<notin> fst ` set TOOL_DISPATCH"
    using assms dispatch_names by (metis set_map)
  then have "map_of TOOL_DISPATCH name = None"
    by (simp add: map_of_eq_None_iff)
  then show ?thesis by (simp add: handle_call_tool_def)
qed

lemma with_arg_missing: "a k = None \<Longrightarrow> with_arg a k f = Inl (KeyError k)"
  by (simp add: with_arg_def subscript_def)

lemma with_arg_present: "a k = Some v \<Longrightarrow> with_arg a k f = f v"
  by (simp add: with_arg_def subscript_def)

lemma missing_required:
  assumes "t \<in> set TOOLS" and "k \<in> set (tool_required t)" and "arguments k = None"
  shows "\<exists>k' \<in> set (tool_required t). arguments k' = None \<and>
     (\<exists>fn. map_of TOOL_DISPATCH (tool_name t) = Some fn \<and> fn arguments = Inl (KeyError k'))"
  using assms
  apply (simp add: TOOLS_def)
  apply (elim disjE)
  apply (simp_all add: TOOL_DISPATCH_def with_arg_missing)
  apply (cases "arguments ''start''"; auto simp: with_arg_missing with_arg_present)+
  done


text \<open>
  Claim C3. A name outside the catalog \<open>TOOLS\<close> makes \<open>handle_call_tool\<close> raise
  \<^verbatim>\<open>ValueError("Unknown tool: ...")\<close>. For a tool of the catalog called without one
  of the arguments its schema requires, the handler raises the \<^verbatim>\<open>KeyError\<close> of a
  missing required argument while it evaluates the arguments of the repository call. In
  both cases the state of the database connections is the one before the call: no
  connection was opened, so the store was not read.
\<close>

theorem dispatch_errors:
  "(name \<notin> set (map tool_name TOOLS) \<longrightarrow>
      handle_call_tool repo dumps name arguments st
        = (Inl (ValueError (''Unknown tool: '' @ name)), st))
   \<and> (t \<in> set TOOLS \<and> k \<in> set (tool_required t) \<and> arguments k = None \<longrightarrow>
        (\<exists>k' \<in> set (tool_required t). arguments k' = None
           \<and> handle_call_tool repo dumps (tool_name t) arguments st = (Inl (KeyError k'), st)))"
proof (intro conjI impI)
  assume "name \<notin> set (map tool_name TOOLS)"
  then show "handle_call_tool repo dumps name arguments st
        = (Inl (ValueError (''Unknown tool: '' @ name)), st)"
    by (rule unknown_tool)
next
  assume "t \<in> set TOOLS \<and> k \<in> set (tool_required t) \<and> arguments k = None"
  then obtain k' fn where "k' \<in> set (tool_required t)" "arguments k' = None"
    "map_of TOOL_DISPATCH (tool_name t) = Some fn" "fn arguments = Inl (KeyError k')"
    using missing_required [of t k arguments] by blast
  then show "\<exists>k' \<in> set (tool_required t). arguments k' = None
           \<and> handle_call_tool repo dumps (tool_name t) arguments st = (Inl (KeyError k'), st)"
    by (auto simp: handle_call_tool_def)
qed

lemma date_range_dispatch:
  "map_of TOOL_DISPATCH ''get_orders_by_date_range''
     = Some (\<lambda>a. with_arg a ''start'' (\<lambda>v. with_arg a ''end'' (\<lambda>w. Inr (Get_orders_by_date_range v w))))"
  by (simp add: TOOL_DISPATCH_def)

theorem dispatch_errors_witness:
  "''drop_tables'' \<notin> set (map tool_name TOOLS)
   \<and> handle_call_tool empty_repo id ''drop_tables'' Map.empty idle
       = (Inl (ValueError ''Unknown tool: drop_tables''), idle)
   \<and> \<lparr>tool_name = ''get_orders_by_date_range'', tool_required = [''start'', ''end'']\<rparr> \<in> set TOOLS
   \<and> handle_call_tool empty_repo id ''get_orders_by_date_range''
         [''start'' \<mapsto> PyStr ''2024-03-01''] idle
       = (Inl (KeyError ''end''), idle)
   \<and> handle_call_tool empty_repo id ''get_orders_by_date_range''
         [''start'' \<mapsto> PyStr ''2024-03-01'', ''end'' \<mapsto> PyStr ''2024-03-31''] idle
       = (Inr [''[]''], idle\<lparr>next_handle := 1\<rparr>)"
proof -
  have h1: "''drop_tables'' \<notin> set (map tool_name TOOLS)"
    by (simp add: TOOLS_def)
  have h2: "\<lparr>tool_name = ''get_orders_by_date_range'', tool_required = [''start'', ''end'']\<rparr> \<in> set TOOLS"
    by (simp add: TOOLS_def)
  have unknown: "handle_call_tool empty_repo id ''drop_tables'' Map.empty idle
       = (Inl (ValueError ''Unknown tool: drop_tables''), idle)"
    using dispatch_errors [of "''drop_tables''" empty_repo id Map.empty idle] h1 by simp
  have missing: "handle_call_tool empty_repo id ''get_orders_by_date_range''
         [''start'' \<mapsto> PyStr ''2024-03-01''] idle = (Inl (KeyError ''end''), idle)"
    using dispatch_errors [of _ empty_repo id "[''start'' \<mapsto> PyStr ''2024-03-01'']" idle
        "\<lparr>tool_name = ''get_orders_by_date_range'', tool_required = [''start'', ''end'']\<rparr>" "''end''"] h2
    by simp
  have present: "handle_call_tool empty_repo id ''get_orders_by_date_range''
         [''start'' \<mapsto> PyStr ''2024-03-01'', ''end'' \<mapsto> PyStr ''2024-03-31''] idle
       = (Inr [''[]''], idle\<lparr>next_handle := 1\<rparr>)"
    by (simp add: handle_call_tool_def date_range_dispatch with_arg_def subscript_def
        with_conn_def get_connection_def conn_close_def empty_repo_def idle_def Let_def)
  from h1 h2 unknown missing present show ?thesis by simp
qed

section \<open>Properties of the agent loop\<close>

















end
